theory Spec2Isabelle
  imports Main "HOL-Library.Word" "HOL-Library.Char_ord" "HOL-Library.List_Lexorder"
begin

section \<open>Errors and outcomes\<close>

text \<open>
  Go's \<open>error\<close> values, as far as the controller distinguishes them: the translator's own
  \<open>translateError\<close> (a field and a reason), an API status error whose reason is NotFound
  (what \<open>k8serrors.IsNotFound\<close> recognises), and any other error, known by its message.
\<close>

record translateError =
  field :: string
  reason :: string

datatype error =
    TranslateError translateError
  | StatusNotFound string
  | OtherError string

fun IsNotFound :: "error \<Rightarrow> bool" where
  "IsNotFound (StatusNotFound _) = True"
| "IsNotFound _ = False"

text \<open>\<open>translateError.Error\<close> formats \<open>"%s: %s"\<close> from field and reason.\<close>

fun Error :: "error \<Rightarrow> string" where
  "Error (TranslateError te) = field te @ '': '' @ reason te"
| "Error (StatusNotFound msg) = msg"
| "Error (OtherError msg) = msg"

text \<open>A call either returns or panics (a failed type assertion, a nil dereference, an
  explicit \<open>panic\<close>).\<close>

datatype 'a outcome = Return 'a | Panic string

section \<open>Translator: data\<close>

text \<open>
  The Kubernetes objects (Service, Endpoints, EndpointSlice and their ports and addresses)
  are those of the Kubernetes API, with the fields the translator reads.

  Modelled from the spec: the gateway types \<open>UpstreamNode\<close> and \<open>Upstream\<close> and the declared
  resource \<open>ApisixUpstream\<close> with its \<open>ApisixUpstreamConfig\<close> and port-level settings are
  declared outside the sources. Their fields are those of the specification's data model
  that the translator reads or assigns; the types of the five configuration fields are
  left open.
\<close>

type_synonym int32 = "32 word"

record ServicePort =
  sp_Name :: string
  sp_Port :: int32

record Service =
  svc_Ports :: "ServicePort list"

record EndpointPort =
  ep_Name :: string
  ep_Port :: int32

record EndpointAddress =
  ea_IP :: string

record EndpointSubset =
  Addresses :: "EndpointAddress list"
  Ports :: "EndpointPort list"

record Endpoints =
  eps_Namespace :: string
  eps_Name :: string
  Subsets :: "EndpointSubset list"

text \<open>The slice representation (discovery/v1beta1): port name and number are pointers.\<close>

record SliceEndpointPort =
  slp_Name :: "string option"
  slp_Port :: "int32 option"

record SliceEndpoint =
  sle_Addresses :: "string list"

record EndpointSlice =
  sl_Namespace :: string
  sl_Name :: string
  sl_Endpoints :: "SliceEndpoint list"
  sl_Ports :: "SliceEndpointPort list"

record UpstreamNode =
  IP :: string
  Port :: int
  Weight :: int

text \<open>The gateway upstream: \<open>Nodes\<close> is the only field the translator assigns itself; the
  remaining fields live in the record's extension slot.\<close>

record Upstream =
  Nodes :: "UpstreamNode list"

record ('sch, 'lb, 'hc, 'rt, 'tm) ApisixUpstreamConfig =
  Scheme :: 'sch
  LoadBalancer :: 'lb
  HealthCheck :: 'hc
  Retries :: 'rt
  Timeout :: 'tm

record ('sch, 'lb, 'hc, 'rt, 'tm) PortLevelSettings =
  pls_Port :: int32
  pls_Config :: "('sch, 'lb, 'hc, 'rt, 'tm) ApisixUpstreamConfig"

record ('sch, 'lb, 'hc, 'rt, 'tm) ApisixUpstream =
  au_Config :: "('sch, 'lb, 'hc, 'rt, 'tm) ApisixUpstreamConfig"
  au_PortLevelSettings :: "('sch, 'lb, 'hc, 'rt, 'tm) PortLevelSettings list"

definition defaultWeight :: int where
  "defaultWeight = 100"

text \<open>\<open>EndpointMode\<close> is an \<open>int\<close> with two named values (\<open>iota\<close>).\<close>

type_synonym EndpointMode = int

definition EndpointsOnly :: EndpointMode where
  "EndpointsOnly = 0"

definition EndpointSliceOnly :: EndpointMode where
  "EndpointSliceOnly = 1"

text \<open>
  \<open>TranslatorOptions\<close> as declared, followed by what the translator reaches outside this
  file: the package-level informer factory's Endpoints and EndpointSlice listers, the
  default upstream constructor and the four sub-translations of an upstream
  configuration. A lister is a function from namespace and name to the object or an error.
\<close>

record ('sch, 'lb, 'hc, 'rt, 'tm, 'u) TranslatorOptions =
  EndpointMode :: EndpointMode
  ServiceLister :: "string \<Rightarrow> string \<Rightarrow> error + Service"
  ApisixUpstreamLister :: "string \<Rightarrow> string \<Rightarrow> error + ('sch, 'lb, 'hc, 'rt, 'tm) ApisixUpstream"
  EndpointsLister :: "string \<Rightarrow> string \<Rightarrow> error + Endpoints"
  EndpointSliceLister :: "string \<Rightarrow> string \<Rightarrow> error + EndpointSlice"
  NewDefaultUpstream :: "'u Upstream_scheme"
  translateUpstreamScheme :: "'sch \<Rightarrow> 'u Upstream_scheme \<Rightarrow> error + 'u Upstream_scheme"
  translateUpstreamLoadBalancer :: "'lb \<Rightarrow> 'u Upstream_scheme \<Rightarrow> error + 'u Upstream_scheme"
  translateUpstreamHealthCheck :: "'hc \<Rightarrow> 'u Upstream_scheme \<Rightarrow> error + 'u Upstream_scheme"
  translateUpstreamRetriesAndTimeout :: "'rt \<Rightarrow> 'tm \<Rightarrow> 'u Upstream_scheme \<Rightarrow> error + 'u Upstream_scheme"

datatype ('sch, 'lb, 'hc, 'rt, 'tm, 'u) translator =
  translator (opts: "('sch, 'lb, 'hc, 'rt, 'tm, 'u) TranslatorOptions")

definition NewTranslator ::
  "('sch, 'lb, 'hc, 'rt, 'tm, 'u) TranslatorOptions \<Rightarrow> ('sch, 'lb, 'hc, 'rt, 'tm, 'u) translator" where
  "NewTranslator options = translator options"

section \<open>Translator: upstream nodes\<close>

text \<open>The search for the service port whose number is the requested one; the loop stops at
  the first match.\<close>

fun findServicePort :: "int32 \<Rightarrow> ServicePort list \<Rightarrow> ServicePort option" where
  "findServicePort port [] = None"
| "findServicePort port (exposePort # rest) =
     (if sp_Port exposePort = port then Some exposePort else findServicePort port rest)"

fun findEndpointPort :: "string \<Rightarrow> EndpointPort list \<Rightarrow> EndpointPort option" where
  "findEndpointPort svcName [] = None"
| "findEndpointPort svcName (port # rest) =
     (if ep_Name port = svcName then Some port else findEndpointPort svcName rest)"

fun appendAddresses :: "EndpointPort \<Rightarrow> EndpointAddress list \<Rightarrow> UpstreamNode list \<Rightarrow> UpstreamNode list" where
  "appendAddresses epPort [] nodes = nodes"
| "appendAddresses epPort (addr # rest) nodes =
     appendAddresses epPort rest
       (nodes @ [\<lparr>IP = ea_IP addr, Port = sint (ep_Port epPort), Weight = defaultWeight\<rparr>])"

fun subsetsLoop :: "ServicePort \<Rightarrow> EndpointSubset list \<Rightarrow> UpstreamNode list \<Rightarrow> UpstreamNode list" where
  "subsetsLoop svcPort [] nodes = nodes"
| "subsetsLoop svcPort (sset # rest) nodes =
     (case findEndpointPort (sp_Name svcPort) (Ports sset) of
        None \<Rightarrow> subsetsLoop svcPort rest nodes
      | Some epPort \<Rightarrow> subsetsLoop svcPort rest (appendAddresses epPort (Addresses sset) nodes))"

definition TranslateUpstreamNodes ::
  "('sch, 'lb, 'hc, 'rt, 'tm, 'u) translator \<Rightarrow> Endpoints \<Rightarrow> int32 \<Rightarrow> error + UpstreamNode list" where
  "TranslateUpstreamNodes t endpoints port =
     (case ServiceLister (opts t) (eps_Namespace endpoints) (eps_Name endpoints) of
        Inl err \<Rightarrow> Inl (TranslateError \<lparr>field = ''service'', reason = Error err\<rparr>)
      | Inr svc \<Rightarrow>
          (case findServicePort port (svc_Ports svc) of
             None \<Rightarrow> Inl (TranslateError \<lparr>field = ''service.spec.ports'', reason = ''port not defined''\<rparr>)
           | Some svcPort \<Rightarrow> Inr (subsetsLoop svcPort (Subsets endpoints) [])))"


text \<open>
  The slice variant. The port name is dereferenced at every comparison and the port
  number at every emitted node, so a nil pointer met there panics. The port search runs
  over the slice's ports once for every endpoint of the slice.
\<close>

definition nilDereference :: string where
  "nilDereference = ''runtime error: invalid memory address or nil pointer dereference''"

fun findSlicePort :: "string \<Rightarrow> SliceEndpointPort list \<Rightarrow> SliceEndpointPort option outcome" where
  "findSlicePort svcName [] = Return None"
| "findSlicePort svcName (port # rest) =
     (case slp_Name port of
        None \<Rightarrow> Panic nilDereference
      | Some portName \<Rightarrow>
          if portName = svcName then Return (Some port) else findSlicePort svcName rest)"

fun appendSliceAddresses ::
  "SliceEndpointPort \<Rightarrow> string list \<Rightarrow> UpstreamNode list \<Rightarrow> UpstreamNode list outcome" where
  "appendSliceAddresses epPort [] nodes = Return nodes"
| "appendSliceAddresses epPort (addr # rest) nodes =
     (case slp_Port epPort of
        None \<Rightarrow> Panic nilDereference
      | Some number \<Rightarrow>
          appendSliceAddresses epPort rest
            (nodes @ [\<lparr>IP = addr, Port = sint number, Weight = defaultWeight\<rparr>]))"

fun endpointsLoop ::
  "ServicePort \<Rightarrow> SliceEndpointPort list \<Rightarrow> SliceEndpoint list \<Rightarrow> UpstreamNode list
     \<Rightarrow> UpstreamNode list outcome" where
  "endpointsLoop svcPort ports [] nodes = Return nodes"
| "endpointsLoop svcPort ports (ep # rest) nodes =
     (case findSlicePort (sp_Name svcPort) ports of
        Panic msg \<Rightarrow> Panic msg
      | Return None \<Rightarrow> endpointsLoop svcPort ports rest nodes
      | Return (Some epPort) \<Rightarrow>
          (case appendSliceAddresses epPort (sle_Addresses ep) nodes of
             Panic msg \<Rightarrow> Panic msg
           | Return nodes' \<Rightarrow> endpointsLoop svcPort ports rest nodes'))"

definition TranslateUpstreamNodesFromEndpointSlice ::
  "('sch, 'lb, 'hc, 'rt, 'tm, 'u) translator \<Rightarrow> EndpointSlice \<Rightarrow> int32
     \<Rightarrow> (error + UpstreamNode list) outcome" where
  "TranslateUpstreamNodesFromEndpointSlice t endpoints port =
     (case ServiceLister (opts t) (sl_Namespace endpoints) (sl_Name endpoints) of
        Inl err \<Rightarrow> Return (Inl (TranslateError \<lparr>field = ''service'', reason = Error err\<rparr>))
      | Inr svc \<Rightarrow>
          (case findServicePort port (svc_Ports svc) of
             None \<Rightarrow>
               Return (Inl (TranslateError
                 \<lparr>field = ''service.spec.ports'', reason = ''port not defined''\<rparr>))
           | Some svcPort \<Rightarrow>
               (case endpointsLoop svcPort (sl_Ports endpoints) (sl_Endpoints endpoints) [] of
                  Panic msg \<Rightarrow> Panic msg
                | Return nodes \<Rightarrow> Return (Inr nodes))))"

section \<open>Translator: upstream configuration and full upstream\<close>

definition TranslateUpstreamConfig ::
  "('sch, 'lb, 'hc, 'rt, 'tm, 'u) translator \<Rightarrow> ('sch, 'lb, 'hc, 'rt, 'tm) ApisixUpstreamConfig
     \<Rightarrow> error + 'u Upstream_scheme" where
  "TranslateUpstreamConfig t au =
     (case translateUpstreamScheme (opts t) (Scheme au) (NewDefaultUpstream (opts t)) of
        Inl err \<Rightarrow> Inl err
      | Inr ups1 \<Rightarrow>
     (case translateUpstreamLoadBalancer (opts t) (LoadBalancer au) ups1 of
        Inl err \<Rightarrow> Inl err
      | Inr ups2 \<Rightarrow>
     (case translateUpstreamHealthCheck (opts t) (HealthCheck au) ups2 of
        Inl err \<Rightarrow> Inl err
      | Inr ups3 \<Rightarrow>
     (case translateUpstreamRetriesAndTimeout (opts t) (Retries au) (Timeout au) ups3 of
        Inl err \<Rightarrow> Inl err
      | Inr ups4 \<Rightarrow> Inr ups4))))"

text \<open>The \<open>switch\<close> on the endpoint mode that opens \<open>TranslateUpstream\<close>: it yields the
  nodes, a translation error, or the panic of the \<open>default\<close> branch.\<close>

definition resolveNodes ::
  "('sch, 'lb, 'hc, 'rt, 'tm, 'u) translator \<Rightarrow> string \<Rightarrow> string \<Rightarrow> int32
     \<Rightarrow> (error + UpstreamNode list) outcome" where
  "resolveNodes t namespace name port =
     (if EndpointMode (opts t) = EndpointSliceOnly then
        (case EndpointSliceLister (opts t) namespace name of
           Inl err \<Rightarrow> Return (Inl (TranslateError \<lparr>field = ''endpointslice'', reason = Error err\<rparr>))
         | Inr endpointSlice \<Rightarrow> TranslateUpstreamNodesFromEndpointSlice t endpointSlice port)
      else if EndpointMode (opts t) = EndpointsOnly then
        (case EndpointsLister (opts t) namespace name of
           Inl err \<Rightarrow> Return (Inl (TranslateError \<lparr>field = ''endpoints'', reason = Error err\<rparr>))
         | Inr endpoints \<Rightarrow> Return (TranslateUpstreamNodes t endpoints port))
      else Panic ''not exists EndpointMode'')"

text \<open>The loop over the port-level settings: the first entry whose port is the requested
  one replaces the top-level configuration.\<close>

fun selectConfig ::
  "int32 \<Rightarrow> ('sch, 'lb, 'hc, 'rt, 'tm) ApisixUpstreamConfig
     \<Rightarrow> ('sch, 'lb, 'hc, 'rt, 'tm) PortLevelSettings list
     \<Rightarrow> ('sch, 'lb, 'hc, 'rt, 'tm) ApisixUpstreamConfig" where
  "selectConfig port upsCfg [] = upsCfg"
| "selectConfig port upsCfg (pls # rest) =
     (if pls_Port pls = port then pls_Config pls else selectConfig port upsCfg rest)"

definition TranslateUpstream ::
  "('sch, 'lb, 'hc, 'rt, 'tm, 'u) translator \<Rightarrow> string \<Rightarrow> string \<Rightarrow> int32
     \<Rightarrow> (error + 'u Upstream_scheme) outcome" where
  "TranslateUpstream t namespace name port =
     (case resolveNodes t namespace name port of
        Panic msg \<Rightarrow> Panic msg
      | Return (Inl err) \<Rightarrow> Return (Inl err)
      | Return (Inr nodes) \<Rightarrow>
          (case ApisixUpstreamLister (opts t) namespace name of
             Inl err \<Rightarrow>
               if IsNotFound err then Return (Inr ((NewDefaultUpstream (opts t))\<lparr>Nodes := nodes\<rparr>))
               else Return (Inl (TranslateError \<lparr>field = ''ApisixUpstream'', reason = Error err\<rparr>))
           | Inr au \<Rightarrow>
               (case TranslateUpstreamConfig t
                       (selectConfig port (au_Config au) (au_PortLevelSettings au)) of
                  Inl err \<Rightarrow> Return (Inl err)
                | Inr ups \<Rightarrow> Return (Inr (ups\<lparr>Nodes := nodes\<rparr>)))))"


section \<open>TLS controller\<close>

text \<open>
  Modelled from the spec: the event type, the queued \<open>Event\<close>, the declared \<open>ApisixTls\<close>
  binding and the gateway \<open>Ssl\<close> object are declared outside the sources. Their fields are
  those of the specification's data model and of the controller's field accesses; the
  \<open>Ssl\<close> identity is a string.
\<close>

datatype EventType = EventAdd | EventUpdate | EventDelete

record ApisixTls =
  tls_Namespace :: string
  tls_Name :: string
  tls_ResourceVersion :: string
  tls_Hosts :: "string list"
  tls_SecretNamespace :: string
  tls_SecretName :: string

text \<open>The queued event: its type, the key (always a string when the handlers build it)
  and, for a delete, the last known object.\<close>

record Event =
  Type :: EventType
  Object :: string
  Tombstone :: "ApisixTls option"

record Ssl =
  ID :: string
  Snis :: "string list"
  Cert :: string
  ssl_Key :: string
  Status :: int

text \<open>
  What the controller calls outside this file: key functions of the cache package, the
  namespace filter, the ApisixTls lister, the translator's \<open>TranslateSSL\<close> and the
  gateway call \<open>syncSSL\<close>.
\<close>

record Controller =
  SplitMetaNamespaceKey :: "string \<Rightarrow> error + string \<times> string"
  MetaNamespaceKeyFunc :: "ApisixTls \<Rightarrow> error + string"
  namespaceWatching :: "string \<Rightarrow> bool"
  apisixTlsLister :: "string \<Rightarrow> string \<Rightarrow> error + ApisixTls"
  TranslateSSL :: "ApisixTls \<Rightarrow> error + Ssl"
  syncSSL :: "Ssl \<Rightarrow> EventType \<Rightarrow> error option"

type_synonym secretSSLMap = "string \<rightharpoonup> (string \<rightharpoonup> Ssl)"

datatype EventClass = EventTypeNormal | EventTypeWarning

datatype EventReason = resourceSynced | resourceSyncAborted

text \<open>
  The calls a reconcile makes, in order. A recorder event keeps the object, the class, the
  reason and the arguments of its message; a gateway call also keeps the index as it
  stands when the call is made. Log lines are not part of the trace.
\<close>

datatype call =
    CallTranslateSSL ApisixTls
  | CallSyncSSL Ssl EventType secretSSLMap
  | RecorderEvent ApisixTls EventClass EventReason "string list"
  | QueueDone Event
  | QueueForget Event
  | QueueAddRateLimited Event

record tls_state =
  index :: secretSSLMap
  trace :: "call list"

definition tlsController :: string where
  "tlsController = ''TlsController''"

definition emit :: "call \<Rightarrow> tls_state \<Rightarrow> tls_state" where
  "emit c st = st\<lparr>trace := trace st @ [c]\<rparr>"

text \<open>\<open>syncSecretSSL\<close>: the outer map holds one bucket per secret key; the bucket found
  is changed and stored back, a missing bucket is created except on a delete.\<close>

definition syncSecretSSL :: "string \<Rightarrow> Ssl \<Rightarrow> EventType \<Rightarrow> secretSSLMap \<Rightarrow> secretSSLMap" where
  "syncSecretSSL key ssl event m =
     (case m key of
        Some sslMap \<Rightarrow>
          (case event of
             EventDelete \<Rightarrow> m(key \<mapsto> sslMap(ID ssl := None))
           | _ \<Rightarrow> m(key \<mapsto> sslMap(ID ssl \<mapsto> ssl)))
      | None \<Rightarrow>
          if event \<noteq> EventDelete then m(key \<mapsto> Map.empty(ID ssl \<mapsto> ssl)) else m)"

text \<open>The second half of \<open>sync\<close>, from the call of \<open>TranslateSSL\<close> on.\<close>

definition translateAndSync ::
  "Controller \<Rightarrow> Event \<Rightarrow> ApisixTls \<Rightarrow> tls_state \<Rightarrow> error option outcome \<times> tls_state" where
  "translateAndSync c ev tls st =
     (let st1 = emit (CallTranslateSSL tls) st in
      case TranslateSSL c tls of
        Inl err \<Rightarrow>
          (Return (Some err),
           emit (RecorderEvent tls EventTypeWarning resourceSyncAborted [tlsController, Error err]) st1)
      | Inr ssl \<Rightarrow>
          (let secretKey = tls_SecretNamespace tls @ ''_'' @ tls_SecretName tls;
               st2 = st1\<lparr>index := syncSecretSSL secretKey ssl (Type ev) (index st1)\<rparr>;
               st3 = emit (CallSyncSSL ssl (Type ev) (index st2)) st2
           in case syncSSL c ssl (Type ev) of
                Some err \<Rightarrow>
                  (Return (Some err),
                   emit (RecorderEvent tls EventTypeWarning resourceSyncAborted
                           [tlsController, Error err]) st3)
              | None \<Rightarrow>
                  (Return None,
                   emit (RecorderEvent tls EventTypeNormal resourceSynced [tlsController]) st3)))"

definition nilTombstone :: string where
  "nilTombstone = ''interface conversion: interface {} is nil, not *v1.ApisixTls''"

definition sync :: "Controller \<Rightarrow> Event \<Rightarrow> tls_state \<Rightarrow> error option outcome \<times> tls_state" where
  "sync c ev st =
     (case SplitMetaNamespaceKey c (Object ev) of
        Inl err \<Rightarrow> (Return (Some err), st)
      | Inr (namespace, name) \<Rightarrow>
          (case apisixTlsLister c namespace name of
             Inl err \<Rightarrow>
               if \<not> IsNotFound err then (Return (Some err), st)
               else if Type ev \<noteq> EventDelete then (Return None, st)
               else (case Tombstone ev of
                       None \<Rightarrow> (Panic nilTombstone, st)
                     | Some tls \<Rightarrow> translateAndSync c ev tls st)
           | Inr tls \<Rightarrow>
               if Type ev = EventDelete then (Return None, st)
               else translateAndSync c ev tls st))"

definition handleSyncErr :: "Event \<Rightarrow> error option \<Rightarrow> tls_state \<Rightarrow> tls_state" where
  "handleSyncErr obj err st =
     (case err of
        None \<Rightarrow> emit (QueueForget obj) st
      | Some _ \<Rightarrow> emit (QueueAddRateLimited obj) st)"

text \<open>One turn of the worker loop, for an item the queue has handed out.\<close>

definition runWorker :: "Controller \<Rightarrow> Event \<Rightarrow> tls_state \<Rightarrow> unit outcome \<times> tls_state" where
  "runWorker c obj st =
     (case sync c obj st of
        (Panic msg, st1) \<Rightarrow> (Panic msg, st1)
      | (Return err, st1) \<Rightarrow> (Return (), handleSyncErr obj err (emit (QueueDone obj) st1)))"



text \<open>
  Modelled from the spec: \<open>TranslateSSL\<close>, the translator method that \<open>sync\<close> calls, is not
  among the sources. The specification describes it: the identity is the binding's
  namespace and name joined by an underscore, the server names are the declared hosts, the
  referenced secret is fetched through the secret lookup, a failed lookup fails the
  translation with field \<open>secret\<close>, certificate and key are read from the secret's
  payload, and a missing or malformed secret yields no object at all.
\<close>

record Secret =
  Data :: "string \<rightharpoonup> string"

definition TranslateSSL_spec ::
  "(string \<Rightarrow> string \<Rightarrow> error + Secret) \<Rightarrow> ApisixTls \<Rightarrow> error + Ssl" where
  "TranslateSSL_spec secretLister tls =
     (case secretLister (tls_SecretNamespace tls) (tls_SecretName tls) of
        Inl err \<Rightarrow> Inl (TranslateError \<lparr>field = ''secret'', reason = Error err\<rparr>)
      | Inr secret \<Rightarrow>
          (case (Data secret ''cert'', Data secret ''key'') of
             (Some cert, Some key) \<Rightarrow>
               Inr \<lparr>ID = tls_Namespace tls @ ''_'' @ tls_Name tls, Snis = tls_Hosts tls,
                    Cert = cert, ssl_Key = key, Status = 1\<rparr>
           | _ \<Rightarrow> Inl (TranslateError \<lparr>field = ''secret'', reason = ''malformed secret''\<rparr>)))"

section \<open>Upstream controller\<close>

text \<open>The declared upstream resource, as far as the controller reads it: its resource
  version, compared as Go compares strings (bytewise, lexicographically).\<close>

record UpstreamCRD =
  ResourceVersion :: string

record UpstreamQueueObj =
  Key :: string
  OldObj :: "UpstreamCRD option"
  Ope :: string

text \<open>What a handler may be handed as \<open>interface{}\<close>: a resource, or (from \<open>updateFunc\<close>) a
  queue object.\<close>

datatype handlerObj = ResourceObj UpstreamCRD | QueueObj UpstreamQueueObj

text \<open>
  What the controller calls outside this file: the key functions, the lister, the builder's
  \<open>Convert\<close> (its error is dropped by the caller), the combination's \<open>Remove\<close> and
  \<open>Solver\<close>, and the three operation names.
\<close>

record 'u UpstreamController =
  uc_SplitMetaNamespaceKey :: "string \<Rightarrow> error + string \<times> string"
  uc_MetaNamespaceKeyFunc :: "handlerObj \<Rightarrow> error + string"
  apisixUpstreamList :: "string \<Rightarrow> string \<Rightarrow> error + UpstreamCRD"
  Convert :: "UpstreamCRD option \<Rightarrow> 'u"
  Remove :: "'u \<Rightarrow> error option"
  Solver :: "'u \<Rightarrow> error option"
  ADD :: string
  UPDATE :: string
  DELETE :: string

datatype 'u ucall =
    CallConvert "UpstreamCRD option"
  | CallRemove 'u
  | CallSolver 'u
  | WorkqueueDone UpstreamQueueObj
  | WorkqueueForget UpstreamQueueObj
  | WorkqueueAddRateLimited UpstreamQueueObj

text \<open>The tail of \<open>syncHandler\<close>: build the gateway upstreams and remove or apply them.\<close>

definition convertAndApply ::
  "'u UpstreamController \<Rightarrow> UpstreamQueueObj \<Rightarrow> UpstreamCRD option \<Rightarrow> 'u ucall list
     \<Rightarrow> error option outcome \<times> 'u ucall list" where
  "convertAndApply c sqo apisixUpstreamYaml tr =
     (let upstreams = Convert c apisixUpstreamYaml;
          tr1 = tr @ [CallConvert apisixUpstreamYaml]
      in if Ope sqo = DELETE c then (Return (Remove c upstreams), tr1 @ [CallRemove upstreams])
         else (Return (Solver c upstreams), tr1 @ [CallSolver upstreams]))"

definition syncHandler ::
  "'u UpstreamController \<Rightarrow> UpstreamQueueObj \<Rightarrow> 'u ucall list
     \<Rightarrow> error option outcome \<times> 'u ucall list" where
  "syncHandler c sqo tr =
     (case uc_SplitMetaNamespaceKey c (Key sqo) of
        Inl err \<Rightarrow> (Return (Some (OtherError (''invalid resource key: '' @ Key sqo))), tr)
      | Inr (namespace, name) \<Rightarrow>
          if Ope sqo = DELETE c then
            (case apisixUpstreamList c namespace name of
               Inr apisixIngressUpstream \<Rightarrow>
                 (case OldObj sqo of
                    None \<Rightarrow> (Panic nilDereference, tr)
                  | Some old \<Rightarrow>
                      if ResourceVersion apisixIngressUpstream > ResourceVersion old
                      then (Return None, tr)
                      else convertAndApply c sqo (OldObj sqo) tr)
             | Inl _ \<Rightarrow> convertAndApply c sqo (OldObj sqo) tr)
          else
            (case apisixUpstreamList c namespace name of
               Inl err \<Rightarrow>
                 if IsNotFound err then (Return None, tr) else (Return (Some err), tr)
             | Inr apisixUpstreamYaml \<Rightarrow> convertAndApply c sqo (Some apisixUpstreamYaml) tr))"

text \<open>The closure of \<open>processNextWorkItem\<close>, for an item of the queue's own type: a failed
  reconcile puts the item back under the rate limiter, a successful one forgets it, and
  the deferred \<open>Done\<close> runs last in either case and before a panic leaves.\<close>

definition processNextWorkItem ::
  "'u UpstreamController \<Rightarrow> UpstreamQueueObj \<Rightarrow> 'u ucall list
     \<Rightarrow> error option outcome \<times> 'u ucall list" where
  "processNextWorkItem c sqo tr =
     (case syncHandler c sqo tr of
        (Panic msg, tr1) \<Rightarrow> (Panic msg, tr1 @ [WorkqueueDone sqo])
      | (Return (Some err), tr1) \<Rightarrow>
          (Return (Some (OtherError (''error syncing '' @ [CHR 0x27] @ Key sqo @ [CHR 0x27] @ '': '' @ Error err))),
           tr1 @ [WorkqueueAddRateLimited sqo, WorkqueueDone sqo])
      | (Return None, tr1) \<Rightarrow> (Return None, tr1 @ [WorkqueueForget sqo, WorkqueueDone sqo]))"



section \<open>Example objects\<close>

text \<open>A service \<open>ns/svc\<close> exposing port 80 under the name \<open>http\<close>; its endpoints listen on
  8080 under that name, and a second subset only carries a \<open>metrics\<close> port.\<close>

definition example_service :: Service where
  "example_service = \<lparr>svc_Ports = [\<lparr>sp_Name = ''http'', sp_Port = 80\<rparr>]\<rparr>"

definition example_endpoints :: Endpoints where
  "example_endpoints =
     \<lparr>eps_Namespace = ''ns'', eps_Name = ''svc'',
      Subsets =
        [\<lparr>Addresses = [\<lparr>ea_IP = ''10.0.0.5''\<rparr>], Ports = [\<lparr>ep_Name = ''http'', ep_Port = 8080\<rparr>]\<rparr>,
         \<lparr>Addresses = [\<lparr>ea_IP = ''10.0.0.6''\<rparr>], Ports = [\<lparr>ep_Name = ''metrics'', ep_Port = 9090\<rparr>]\<rparr>]\<rparr>"

definition example_slice :: EndpointSlice where
  "example_slice =
     \<lparr>sl_Namespace = ''ns'', sl_Name = ''svc'',
      sl_Endpoints = [\<lparr>sle_Addresses = [''10.0.0.5'']\<rparr>],
      sl_Ports = [\<lparr>slp_Name = Some ''http'', slp_Port = Some 8080\<rparr>]\<rparr>"

text \<open>An upstream policy whose top-level scheme is \<open>http\<close> and whose override for port 80
  is \<open>grpc\<close>. In the examples a scheme is a string kept in the upstream's extension slot;
  the other sub-translations leave the upstream as it is.\<close>

definition example_policy :: "(string, unit, unit, unit, unit) ApisixUpstream" where
  "example_policy =
     \<lparr>au_Config = \<lparr>Scheme = ''http'', LoadBalancer = (), HealthCheck = (), Retries = (), Timeout = ()\<rparr>,
      au_PortLevelSettings =
        [\<lparr>pls_Port = 80,
          pls_Config = \<lparr>Scheme = ''grpc'', LoadBalancer = (), HealthCheck = (), Retries = (), Timeout = ()\<rparr>\<rparr>]\<rparr>"

definition example_options :: "(string, unit, unit, unit, unit, string) TranslatorOptions" where
  "example_options =
     \<lparr>EndpointMode = EndpointsOnly,
      ServiceLister = (\<lambda>namespace name.
        if namespace = ''ns'' \<and> name = ''svc'' then Inr example_service
        else Inl (StatusNotFound ''service not found'')),
      ApisixUpstreamLister = (\<lambda>namespace name.
        if namespace = ''ns'' \<and> name = ''svc'' then Inr example_policy
        else Inl (StatusNotFound ''apisixupstream not found'')),
      EndpointsLister = (\<lambda>namespace name.
        if namespace = ''ns'' \<and> name = ''svc'' then Inr example_endpoints
        else Inl (StatusNotFound ''endpoints not found'')),
      EndpointSliceLister = (\<lambda>namespace name.
        if namespace = ''ns'' \<and> name = ''svc'' then Inr example_slice
        else Inl (StatusNotFound ''endpointslice not found'')),
      NewDefaultUpstream = \<lparr>Nodes = [], \<dots> = ''default''\<rparr>,
      translateUpstreamScheme = (\<lambda>sch ups. Inr (ups\<lparr>Upstream.more := sch\<rparr>)),
      translateUpstreamLoadBalancer = (\<lambda>lb ups. Inr ups),
      translateUpstreamHealthCheck = (\<lambda>hc ups. Inr ups),
      translateUpstreamRetriesAndTimeout = (\<lambda>retries timeout ups. Inr ups)\<rparr>"

text \<open>The same options with no upstream policy declared anywhere.\<close>

definition example_options_no_policy :: "(string, unit, unit, unit, unit, string) TranslatorOptions" where
  "example_options_no_policy =
     example_options\<lparr>ApisixUpstreamLister :=
       (\<lambda>namespace name. Inl (StatusNotFound ''apisixupstream not found''))\<rparr>"

text \<open>The TLS binding \<open>helm/foo\<close> for host \<open>api6.com\<close> with secret \<open>helm/test-atls\<close>.\<close>

definition example_tls :: ApisixTls where
  "example_tls =
     \<lparr>tls_Namespace = ''helm'', tls_Name = ''foo'', tls_ResourceVersion = ''1'',
      tls_Hosts = [''api6.com''], tls_SecretNamespace = ''helm'', tls_SecretName = ''test-atls''\<rparr>"

definition example_secrets :: "string \<Rightarrow> string \<Rightarrow> error + Secret" where
  "example_secrets namespace name =
     (if namespace = ''helm'' \<and> name = ''test-atls''
      then Inr \<lparr>Data = [''cert'' \<mapsto> ''root'', ''key'' \<mapsto> ''123456'']\<rparr>
      else Inl (StatusNotFound ''secret not found''))"

definition example_ssl :: Ssl where
  "example_ssl =
     \<lparr>ID = ''helm_foo'', Snis = [''api6.com''], Cert = ''root'', ssl_Key = ''123456'', Status = 1\<rparr>"

text \<open>A controller whose cache holds \<open>helm/foo\<close> and whose gateway accepts every call; one
  with an empty cache; one whose cache fails; one whose gateway refuses every call; and
  one whose secret lookup finds nothing.\<close>

definition example_controller :: Controller where
  "example_controller =
     \<lparr>SplitMetaNamespaceKey = (\<lambda>key.
        if key = ''helm/foo'' then Inr (''helm'', ''foo'')
        else Inl (OtherError ''unexpected key format'')),
      MetaNamespaceKeyFunc = (\<lambda>tls. Inr (tls_Namespace tls @ ''/'' @ tls_Name tls)),
      namespaceWatching = (\<lambda>key. True),
      apisixTlsLister = (\<lambda>namespace name.
        if namespace = ''helm'' \<and> name = ''foo'' then Inr example_tls
        else Inl (StatusNotFound ''apisixtls not found'')),
      TranslateSSL = TranslateSSL_spec example_secrets,
      syncSSL = (\<lambda>ssl event. None)\<rparr>"

definition example_controller_empty :: Controller where
  "example_controller_empty =
     example_controller\<lparr>apisixTlsLister :=
       (\<lambda>namespace name. Inl (StatusNotFound ''apisixtls not found''))\<rparr>"

definition example_controller_broken :: Controller where
  "example_controller_broken =
     example_controller\<lparr>apisixTlsLister :=
       (\<lambda>namespace name. Inl (OtherError ''cache unavailable''))\<rparr>"

definition example_controller_refused :: Controller where
  "example_controller_refused =
     example_controller\<lparr>syncSSL := (\<lambda>ssl event. Some (OtherError ''gateway unreachable''))\<rparr>"

definition example_controller_no_secret :: Controller where
  "example_controller_no_secret =
     example_controller\<lparr>TranslateSSL :=
       TranslateSSL_spec (\<lambda>namespace name. Inl (StatusNotFound ''NOT FOUND''))\<rparr>"

definition example_state :: tls_state where
  "example_state = \<lparr>index = Map.empty, trace = []\<rparr>"

text \<open>An upstream controller whose cache holds \<open>ns/foo\<close> at resource version \<open>10\<close>; one
  with an empty cache; one whose cache fails. The gateway upstreams of a resource are
  represented by its resource version.\<close>

definition example_upstream_controller :: "string UpstreamController" where
  "example_upstream_controller =
     \<lparr>uc_SplitMetaNamespaceKey = (\<lambda>key.
        if key = ''ns/foo'' then Inr (''ns'', ''foo'')
        else Inl (OtherError ''unexpected key format'')),
      uc_MetaNamespaceKeyFunc = (\<lambda>obj.
        case obj of
          ResourceObj _ \<Rightarrow> Inr ''ns/foo''
        | QueueObj _ \<Rightarrow> Inl (OtherError ''object has no meta'')),
      apisixUpstreamList = (\<lambda>namespace name. Inr \<lparr>ResourceVersion = ''10''\<rparr>),
      Convert = (\<lambda>crd. case crd of None \<Rightarrow> ''none'' | Some obj \<Rightarrow> ResourceVersion obj),
      Remove = (\<lambda>upstreams. None),
      Solver = (\<lambda>upstreams. None),
      ADD = ''ADD'', UPDATE = ''UPDATE'', DELETE = ''DELETE''\<rparr>"

definition example_upstream_controller_empty :: "string UpstreamController" where
  "example_upstream_controller_empty =
     example_upstream_controller\<lparr>apisixUpstreamList :=
       (\<lambda>namespace name. Inl (StatusNotFound ''apisixupstream not found''))\<rparr>"

definition example_upstream_controller_broken :: "string UpstreamController" where
  "example_upstream_controller_broken =
     example_upstream_controller\<lparr>apisixUpstreamList :=
       (\<lambda>namespace name. Inl (OtherError ''cache unavailable''))\<rparr>"


section \<open>Node resolution\<close>


lemma findServicePort_find: "findServicePort port ps = find (\<lambda>p. sp_Port p = port) ps"
  by (induction ps) simp_all

lemma findEndpointPort_find: "findEndpointPort n ps = find (\<lambda>p. ep_Name p = n) ps"
  by (induction ps) simp_all

lemma appendAddresses_map:
  "appendAddresses epPort as nodes =
     nodes @ map (\<lambda>addr. \<lparr>IP = ea_IP addr, Port = sint (ep_Port epPort), Weight = 100\<rparr>) as"
  by (induction as arbitrary: nodes) (simp_all add: defaultWeight_def)

lemma subsetsLoop_concat:
  "subsetsLoop svcPort ss nodes =
     nodes @ concat (map (\<lambda>s. case find (\<lambda>p. ep_Name p = sp_Name svcPort) (Ports s) of
                                  None \<Rightarrow> []
                                | Some epPort \<Rightarrow>
                                    map (\<lambda>addr. \<lparr>IP = ea_IP addr, Port = sint (ep_Port epPort), Weight = 100\<rparr>)
                                      (Addresses s)) ss)"
  by (induction ss arbitrary: nodes)
     (simp_all add: findEndpointPort_find appendAddresses_map split: option.splits)

text \<open>
  Claim C4. Once the Service of an Endpoints object has been looked up, node resolution
  fails exactly when no port of that Service has the target number, and the error then
  names the field \<open>service.spec.ports\<close>. Otherwise the result is, subset by subset in
  order, one node of weight 100 per address of every subset that has a port named like
  the (first) matching service port; a subset without such a port contributes nothing
  and raises no error, so the list may be empty.
\<close>

theorem TranslateUpstreamNodes_resolves:
  assumes "ServiceLister (opts t) (eps_Namespace endpoints) (eps_Name endpoints) = Inr svc"
  shows "(isl (TranslateUpstreamNodes t endpoints port) \<longleftrightarrow>
            (\<forall>p \<in> set (svc_Ports svc). sp_Port p \<noteq> port))
       \<and> ((\<forall>p \<in> set (svc_Ports svc). sp_Port p \<noteq> port) \<longrightarrow>
            TranslateUpstreamNodes t endpoints port =
              Inl (TranslateError \<lparr>field = ''service.spec.ports'', reason = ''port not defined''\<rparr>))
       \<and> (\<forall>svcPort. find (\<lambda>p. sp_Port p = port) (svc_Ports svc) = Some svcPort \<longrightarrow>
            TranslateUpstreamNodes t endpoints port =
              Inr (concat (map (\<lambda>s. case find (\<lambda>p. ep_Name p = sp_Name svcPort) (Ports s) of
                                       None \<Rightarrow> []
                                     | Some epPort \<Rightarrow>
                                         map (\<lambda>addr. \<lparr>IP = ea_IP addr, Port = sint (ep_Port epPort), Weight = 100\<rparr>)
                                           (Addresses s))
                            (Subsets endpoints))))"
proof -
  have none: "find (\<lambda>p. sp_Port p = port) (svc_Ports svc) = None \<longleftrightarrow>
              (\<forall>p \<in> set (svc_Ports svc). sp_Port p \<noteq> port)"
    by (auto simp: find_None_iff)
  show ?thesis
    using assms none
    by (auto simp: TranslateUpstreamNodes_def findServicePort_find subsetsLoop_concat
             split: option.splits)
qed


theorem TranslateUpstreamNodes_resolves_witness:
  "ServiceLister (opts (NewTranslator example_options)) (eps_Namespace example_endpoints)
       (eps_Name example_endpoints) = Inr example_service
   \<and> \<not> (\<forall>p \<in> set (svc_Ports example_service). sp_Port p \<noteq> 80)
   \<and> TranslateUpstreamNodes (NewTranslator example_options) example_endpoints 80 =
       Inr [\<lparr>IP = ''10.0.0.5'', Port = 8080, Weight = 100\<rparr>]
   \<and> TranslateUpstreamNodes (NewTranslator example_options) example_endpoints 81 =
       Inl (TranslateError \<lparr>field = ''service.spec.ports'', reason = ''port not defined''\<rparr>)"
proof -
  have h: "ServiceLister (opts (NewTranslator example_options)) (eps_Namespace example_endpoints)
       (eps_Name example_endpoints) = Inr example_service"
    by (simp add: NewTranslator_def example_options_def example_endpoints_def)
  have f: "find (\<lambda>p. sp_Port p = 80) (svc_Ports example_service) = Some \<lparr>sp_Name = ''http'', sp_Port = 80\<rparr>"
    by (simp add: example_service_def)
  have n: "\<forall>p \<in> set (svc_Ports example_service). sp_Port p \<noteq> 81"
    by (simp add: example_service_def)
  from TranslateUpstreamNodes_resolves [OF h, of 80] f
  have a: "TranslateUpstreamNodes (NewTranslator example_options) example_endpoints 80 =
       Inr [\<lparr>IP = ''10.0.0.5'', Port = 8080, Weight = 100\<rparr>]"
    by (simp add: example_endpoints_def)
  from TranslateUpstreamNodes_resolves [OF h, of 81] n
  have b: "TranslateUpstreamNodes (NewTranslator example_options) example_endpoints 81 =
       Inl (TranslateError \<lparr>field = ''service.spec.ports'', reason = ''port not defined''\<rparr>)"
    by blast
  show ?thesis using h a b by (simp add: example_service_def)
qed










section \<open>Upstream resolution\<close>


lemma selectConfig_find:
  "selectConfig port upsCfg settings =
     (case find (\<lambda>pls. pls_Port pls = port) settings of
        Some pls \<Rightarrow> pls_Config pls
      | None \<Rightarrow> upsCfg)"
  by (induction settings) simp_all

text \<open>
  Claim C6. When the nodes of an upstream have been resolved: if the upstream-policy
  lister reports not-found, the result is the default upstream with the nodes attached
  and no error; if the policy exists, the configuration translated is that of the first
  port-level setting whose port is the requested one, or the top-level configuration when
  there is none, and the nodes are attached to the upstream that translation yields (an
  error of that translation is passed on).
\<close>

theorem TranslateUpstream_policy:
  assumes "resolveNodes t namespace name port = Return (Inr nodes)"
  shows "(\<forall>err. ApisixUpstreamLister (opts t) namespace name = Inl err \<and> IsNotFound err \<longrightarrow>
            TranslateUpstream t namespace name port =
              Return (Inr ((NewDefaultUpstream (opts t))\<lparr>Nodes := nodes\<rparr>)))
       \<and> (\<forall>au. ApisixUpstreamLister (opts t) namespace name = Inr au \<longrightarrow>
            TranslateUpstream t namespace name port =
              Return (map_sum id (\<lambda>ups. ups\<lparr>Nodes := nodes\<rparr>)
                (TranslateUpstreamConfig t
                   (case find (\<lambda>pls. pls_Port pls = port) (au_PortLevelSettings au) of
                      Some pls \<Rightarrow> pls_Config pls
                    | None \<Rightarrow> au_Config au))))"
  using assms
  by (auto simp: TranslateUpstream_def selectConfig_find split: sum.splits)

theorem TranslateUpstream_policy_witness:
  "resolveNodes (NewTranslator example_options) ''ns'' ''svc'' 80 =
     Return (Inr [\<lparr>IP = ''10.0.0.5'', Port = 8080, Weight = 100\<rparr>])
   \<and> TranslateUpstream (NewTranslator example_options) ''ns'' ''svc'' 80 =
       Return (Inr \<lparr>Nodes = [\<lparr>IP = ''10.0.0.5'', Port = 8080, Weight = 100\<rparr>], \<dots> = ''grpc''\<rparr>)
   \<and> TranslateUpstream (NewTranslator example_options_no_policy) ''ns'' ''svc'' 80 =
       Return (Inr \<lparr>Nodes = [\<lparr>IP = ''10.0.0.5'', Port = 8080, Weight = 100\<rparr>], \<dots> = ''default''\<rparr>)"
proof -
  have h1: "resolveNodes (NewTranslator example_options) ''ns'' ''svc'' 80 =
     Return (Inr [\<lparr>IP = ''10.0.0.5'', Port = 8080, Weight = 100\<rparr>])"
    by (simp add: resolveNodes_def TranslateUpstreamNodes_def NewTranslator_def example_options_def
        example_endpoints_def example_service_def defaultWeight_def EndpointsOnly_def
        EndpointSliceOnly_def)
  have h2: "resolveNodes (NewTranslator example_options_no_policy) ''ns'' ''svc'' 80 =
     Return (Inr [\<lparr>IP = ''10.0.0.5'', Port = 8080, Weight = 100\<rparr>])"
    by (simp add: resolveNodes_def TranslateUpstreamNodes_def NewTranslator_def example_options_def
        example_options_no_policy_def
        example_endpoints_def example_service_def defaultWeight_def EndpointsOnly_def
        EndpointSliceOnly_def)
  have p: "ApisixUpstreamLister (opts (NewTranslator example_options)) ''ns'' ''svc'' = Inr example_policy"
    by (simp add: NewTranslator_def example_options_def)
  have q: "ApisixUpstreamLister (opts (NewTranslator example_options_no_policy)) ''ns'' ''svc'' =
             Inl (StatusNotFound ''apisixupstream not found'')"
    by (simp add: NewTranslator_def example_options_def example_options_no_policy_def)
  from TranslateUpstream_policy [OF h1] p
  have a: "TranslateUpstream (NewTranslator example_options) ''ns'' ''svc'' 80 =
       Return (Inr \<lparr>Nodes = [\<lparr>IP = ''10.0.0.5'', Port = 8080, Weight = 100\<rparr>], \<dots> = ''grpc''\<rparr>)"
    by (simp add: example_policy_def TranslateUpstreamConfig_def NewTranslator_def example_options_def)
  from TranslateUpstream_policy [OF h2] q
  have b: "TranslateUpstream (NewTranslator example_options_no_policy) ''ns'' ''svc'' 80 =
       Return (Inr \<lparr>Nodes = [\<lparr>IP = ''10.0.0.5'', Port = 8080, Weight = 100\<rparr>], \<dots> = ''default''\<rparr>)"
    by (simp add: NewTranslator_def example_options_def example_options_no_policy_def)
  show ?thesis using h1 a b by simp
qed

lemma findSlicePort_Panic: "findSlicePort n ps = Panic msg \<Longrightarrow> msg = nilDereference"
  by (induction ps) (auto split: option.splits if_splits)

lemma appendSliceAddresses_Panic:
  "appendSliceAddresses epPort as nodes = Panic msg \<Longrightarrow> msg = nilDereference"
  by (induction as arbitrary: nodes) (auto split: option.splits)

lemma endpointsLoop_Panic:
  "endpointsLoop svcPort ports eps nodes = Panic msg \<Longrightarrow> msg = nilDereference"
proof (induction eps arbitrary: nodes)
  case Nil
  then show ?case by simp
next
  case (Cons ep rest)
  then show ?case
    by (auto split: outcome.splits option.splits
             dest: findSlicePort_Panic appendSliceAddresses_Panic)
qed

lemma TranslateUpstreamNodesFromEndpointSlice_Panic:
  "TranslateUpstreamNodesFromEndpointSlice t endpoints port = Panic msg \<Longrightarrow> msg = nilDereference"
  by (auto simp: TranslateUpstreamNodesFromEndpointSlice_def
           split: sum.splits option.splits outcome.splits dest: endpointsLoop_Panic)

lemma nilDereference_not_mode: "nilDereference \<noteq> ''not exists EndpointMode''"
  by (simp add: nilDereference_def)

lemma resolveNodes_Panic_mode:
  "resolveNodes t namespace name port = Panic ''not exists EndpointMode'' \<longleftrightarrow>
     EndpointMode (opts t) \<noteq> EndpointsOnly \<and> EndpointMode (opts t) \<noteq> EndpointSliceOnly"
  using nilDereference_not_mode
  by (auto simp: resolveNodes_def split: sum.splits
           dest!: TranslateUpstreamNodesFromEndpointSlice_Panic)

text \<open>
  Claim C9, as amended. \<open>NewTranslator\<close> stores the options as they are and rejects no
  mode value. \<open>TranslateUpstream\<close> panics with \<open>not exists EndpointMode\<close> exactly when
  the stored mode is neither \<open>EndpointsOnly\<close> nor \<open>EndpointSliceOnly\<close>: only for these two
  values is the unrecognised-mode branch unreachable.
\<close>

theorem EndpointMode_checked_at_translation:
  "opts (NewTranslator options) = options
   \<and> (TranslateUpstream (NewTranslator options) namespace name port = Panic ''not exists EndpointMode''
        \<longleftrightarrow> EndpointMode options \<noteq> EndpointsOnly \<and> EndpointMode options \<noteq> EndpointSliceOnly)"
proof -
  have "TranslateUpstream (NewTranslator options) namespace name port = Panic msg \<longleftrightarrow>
        resolveNodes (NewTranslator options) namespace name port = Panic msg" for msg
    by (auto simp: TranslateUpstream_def split: outcome.splits sum.splits)
  then show ?thesis
    by (simp add: resolveNodes_Panic_mode) (simp add: NewTranslator_def)
qed

theorem EndpointMode_checked_at_translation_witness:
  "TranslateUpstream (NewTranslator example_options) ''ns'' ''svc'' 80 \<noteq> Panic ''not exists EndpointMode''
   \<and> TranslateUpstream (NewTranslator (example_options\<lparr>EndpointMode := EndpointSliceOnly\<rparr>)) ''ns'' ''svc'' 80
       \<noteq> Panic ''not exists EndpointMode''"
  using EndpointMode_checked_at_translation [of example_options "''ns''" "''svc''" 80]
        EndpointMode_checked_at_translation
          [of "example_options\<lparr>EndpointMode := EndpointSliceOnly\<rparr>" "''ns''" "''svc''" 80]
  by (simp add: example_options_def)

text \<open>
  The claim as stated fails: a translator built with mode 2 is constructed without
  complaint, and its first upstream translation panics.
\<close>

theorem unrecognized_EndpointMode_counterexample:
  "opts (NewTranslator (example_options\<lparr>EndpointMode := 2\<rparr>)) = example_options\<lparr>EndpointMode := 2\<rparr>
   \<and> EndpointMode (example_options\<lparr>EndpointMode := 2\<rparr>) \<noteq> EndpointsOnly
   \<and> EndpointMode (example_options\<lparr>EndpointMode := 2\<rparr>) \<noteq> EndpointSliceOnly
   \<and> TranslateUpstream (NewTranslator (example_options\<lparr>EndpointMode := 2\<rparr>)) ''ns'' ''svc'' 80 =
       Panic ''not exists EndpointMode''"
  by (simp add: TranslateUpstream_def resolveNodes_def NewTranslator_def EndpointsOnly_def
        EndpointSliceOnly_def)



section \<open>Secret index and TLS reconcile\<close>


lemma syncSecretSSL_upsert:
  "event \<noteq> EventDelete \<Longrightarrow>
     syncSecretSSL key ssl event m =
       m(key \<mapsto> (case m key of None \<Rightarrow> Map.empty | Some b \<Rightarrow> b)(ID ssl \<mapsto> ssl))"
  by (cases event; cases "m key") (simp_all add: syncSecretSSL_def)

lemma syncSecretSSL_delete:
  "syncSecretSSL key ssl EventDelete m =
     (case m key of None \<Rightarrow> m | Some b \<Rightarrow> m(key \<mapsto> b(ID ssl := None)))"
  by (cases "m key") (simp_all add: syncSecretSSL_def)

text \<open>
  Claim C7. After two upserts under one secret key for two different ssl IDs, both
  entries are found in that key's bucket. Removing the first ID removes that entry and
  no other: the second is still found, and every other ID of the bucket reads as before.
  Removing the second as well leaves the bucket in the outer map (empty, when it was
  created by these upserts). Buckets of other keys are never touched.
\<close>

theorem syncSecretSSL_isolation:
  assumes "ID ssl1 \<noteq> ID ssl2" and "ev1 \<noteq> EventDelete" and "ev2 \<noteq> EventDelete"
  shows "let m2 = syncSecretSSL key ssl2 ev2 (syncSecretSSL key ssl1 ev1 m);
             m3 = syncSecretSSL key ssl1 EventDelete m2;
             m4 = syncSecretSSL key ssl2 EventDelete m3
         in Option.bind (m2 key) (\<lambda>b. b (ID ssl1)) = Some ssl1
          \<and> Option.bind (m2 key) (\<lambda>b. b (ID ssl2)) = Some ssl2
          \<and> Option.bind (m3 key) (\<lambda>b. b (ID ssl1)) = None
          \<and> Option.bind (m3 key) (\<lambda>b. b (ID ssl2)) = Some ssl2
          \<and> (\<forall>i. i \<noteq> ID ssl1 \<longrightarrow>
                Option.bind (m3 key) (\<lambda>b. b i) = Option.bind (m2 key) (\<lambda>b. b i))
          \<and> m3 key \<noteq> None
          \<and> m4 key \<noteq> None
          \<and> (m key = None \<longrightarrow> m4 key = Some Map.empty)
          \<and> (\<forall>k. k \<noteq> key \<longrightarrow> m2 k = m k \<and> m3 k = m k \<and> m4 k = m k)"
  using assms
  by (simp add: syncSecretSSL_upsert syncSecretSSL_delete Let_def)

theorem syncSecretSSL_isolation_witness:
  "ID example_ssl \<noteq> ID (example_ssl\<lparr>ID := ''helm_bar''\<rparr>)
   \<and> (let m2 = syncSecretSSL ''helm_test-atls'' (example_ssl\<lparr>ID := ''helm_bar''\<rparr>) EventUpdate
                 (syncSecretSSL ''helm_test-atls'' example_ssl EventAdd Map.empty);
           m3 = syncSecretSSL ''helm_test-atls'' example_ssl EventDelete m2;
           m4 = syncSecretSSL ''helm_test-atls'' (example_ssl\<lparr>ID := ''helm_bar''\<rparr>) EventDelete m3
       in Option.bind (m2 ''helm_test-atls'') (\<lambda>b. b ''helm_foo'') = Some example_ssl
        \<and> Option.bind (m2 ''helm_test-atls'') (\<lambda>b. b ''helm_bar'') = Some (example_ssl\<lparr>ID := ''helm_bar''\<rparr>)
        \<and> Option.bind (m3 ''helm_test-atls'') (\<lambda>b. b ''helm_foo'') = None
        \<and> Option.bind (m3 ''helm_test-atls'') (\<lambda>b. b ''helm_bar'') = Some (example_ssl\<lparr>ID := ''helm_bar''\<rparr>)
        \<and> m4 ''helm_test-atls'' = Some Map.empty)"
proof -
  have h: "ID example_ssl \<noteq> ID (example_ssl\<lparr>ID := ''helm_bar''\<rparr>)"
    by (simp add: example_ssl_def)
  have i: "ID example_ssl = ''helm_foo''" "ID (example_ssl\<lparr>ID := ''helm_bar''\<rparr>) = ''helm_bar''"
    by (simp_all add: example_ssl_def)
  from syncSecretSSL_isolation
         [OF h, of EventAdd EventUpdate "''helm_test-atls''" Map.empty]
  show ?thesis
    unfolding i Let_def using h by simp
qed

lemma sync_reaches_translateAndSync:
  assumes "SplitMetaNamespaceKey c (Object ev) = Inr (namespace, name)"
    and "(Type ev \<noteq> EventDelete \<and> apisixTlsLister c namespace name = Inr tls)
         \<or> (Type ev = EventDelete \<and> Tombstone ev = Some tls
              \<and> (\<exists>err. apisixTlsLister c namespace name = Inl err \<and> IsNotFound err))"
  shows "sync c ev st = translateAndSync c ev tls st"
  using assms by (auto simp: sync_def)

lemma translateAndSync_ok:
  assumes "TranslateSSL c tls = Inr ssl"
  shows "translateAndSync c ev tls st =
     (let idx = syncSecretSSL (tls_SecretNamespace tls @ ''_'' @ tls_SecretName tls) ssl (Type ev) (index st)
      in (Return (syncSSL c ssl (Type ev)),
          \<lparr>index = idx,
           trace = trace st @
             [CallTranslateSSL tls, CallSyncSSL ssl (Type ev) idx,
              (case syncSSL c ssl (Type ev) of
                 Some err \<Rightarrow> RecorderEvent tls EventTypeWarning resourceSyncAborted [tlsController, Error err]
               | None \<Rightarrow> RecorderEvent tls EventTypeNormal resourceSynced [tlsController])]\<rparr>))"
  using assms
  by (cases "syncSSL c ssl (Type ev)") (simp_all add: translateAndSync_def emit_def Let_def)

lemma translateAndSync_failed:
  assumes "TranslateSSL c tls = Inl err"
  shows "translateAndSync c ev tls st =
     (Return (Some err),
      \<lparr>index = index st,
       trace = trace st @
         [CallTranslateSSL tls,
          RecorderEvent tls EventTypeWarning resourceSyncAborted [tlsController, Error err]]\<rparr>)"
  using assms by (simp add: translateAndSync_def emit_def Let_def)

text \<open>
  Claim C8. In a TLS reconcile that reaches translation and whose translation succeeds,
  the index seen by the gateway call is already the updated one, and the index after the
  reconcile is that same index whatever the gateway call answers; the reconcile's result
  is the gateway call's result. So also when the gateway call fails and the reconcile
  returns its error, the binding's entry is in the index for an add or update, and is
  gone from it for a delete.
\<close>

theorem index_updated_before_gateway_sync:
  assumes "SplitMetaNamespaceKey c (Object ev) = Inr (namespace, name)"
    and "(Type ev \<noteq> EventDelete \<and> apisixTlsLister c namespace name = Inr tls)
         \<or> (Type ev = EventDelete \<and> Tombstone ev = Some tls
              \<and> (\<exists>err. apisixTlsLister c namespace name = Inl err \<and> IsNotFound err))"
    and "TranslateSSL c tls = Inr ssl"
  shows "let secretKey = tls_SecretNamespace tls @ ''_'' @ tls_SecretName tls;
             idx = syncSecretSSL secretKey ssl (Type ev) (index st);
             (result, st') = sync c ev st
         in result = Return (syncSSL c ssl (Type ev))
          \<and> index st' = idx
          \<and> (\<exists>recorded. trace st' =
                trace st @ [CallTranslateSSL tls, CallSyncSSL ssl (Type ev) idx, recorded])
          \<and> (Type ev \<noteq> EventDelete \<longrightarrow>
                Option.bind (index st' secretKey) (\<lambda>b. b (ID ssl)) = Some ssl)
          \<and> (Type ev = EventDelete \<longrightarrow>
                Option.bind (index st' secretKey) (\<lambda>b. b (ID ssl)) = None)"
proof -
  have s: "sync c ev st = translateAndSync c ev tls st"
    using assms(1,2) by (rule sync_reaches_translateAndSync)
  have up: "Type ev \<noteq> EventDelete \<Longrightarrow>
      Option.bind (syncSecretSSL k ssl (Type ev) m k) (\<lambda>b. b (ID ssl)) = Some ssl" for k m
    by (simp add: syncSecretSSL_upsert)
  have del: "Option.bind (syncSecretSSL k ssl EventDelete m k) (\<lambda>b. b (ID ssl)) = None" for k m
    by (cases "m k") (simp_all add: syncSecretSSL_delete)
  show ?thesis
    unfolding s translateAndSync_ok [OF assms(3)] Let_def
    using up del by auto
qed


lemma example_translate: "TranslateSSL_spec example_secrets example_tls = Inr example_ssl"
  by (simp add: TranslateSSL_spec_def example_secrets_def example_tls_def example_ssl_def)

theorem index_updated_before_gateway_sync_witness:
  "(let (result, st') = sync example_controller_refused
                          \<lparr>Type = EventAdd, Object = ''helm/foo'', Tombstone = None\<rparr> example_state
    in result = Return (Some (OtherError ''gateway unreachable''))
     \<and> Option.bind (index st' ''helm_test-atls'') (\<lambda>b. b ''helm_foo'') = Some example_ssl)
   \<and> (let (result, st') = sync (example_controller_empty\<lparr>syncSSL := (\<lambda>ssl event. Some (OtherError ''gateway unreachable''))\<rparr>)
                          \<lparr>Type = EventDelete, Object = ''helm/foo'', Tombstone = Some example_tls\<rparr>
                          \<lparr>index = [''helm_test-atls'' \<mapsto> [''helm_foo'' \<mapsto> example_ssl]], trace = []\<rparr>
    in result = Return (Some (OtherError ''gateway unreachable''))
     \<and> Option.bind (index st' ''helm_test-atls'') (\<lambda>b. b ''helm_foo'') = None)"
proof -
  let ?add = "\<lparr>Type = EventAdd, Object = ''helm/foo'', Tombstone = None\<rparr>"
  let ?del = "\<lparr>Type = EventDelete, Object = ''helm/foo'', Tombstone = Some example_tls\<rparr>"
  let ?c2 = "example_controller_empty\<lparr>syncSSL := (\<lambda>ssl event. Some (OtherError ''gateway unreachable''))\<rparr>"
  have a1: "SplitMetaNamespaceKey example_controller_refused (Object ?add) = Inr (''helm'', ''foo'')"
    by (simp add: example_controller_refused_def example_controller_def)
  have a2: "(Type ?add \<noteq> EventDelete \<and> apisixTlsLister example_controller_refused ''helm'' ''foo'' = Inr example_tls)
         \<or> (Type ?add = EventDelete \<and> Tombstone ?add = Some example_tls
              \<and> (\<exists>err. apisixTlsLister example_controller_refused ''helm'' ''foo'' = Inl err \<and> IsNotFound err))"
    by (simp add: example_controller_refused_def example_controller_def)
  have a3: "TranslateSSL example_controller_refused example_tls = Inr example_ssl"
    by (simp add: example_controller_refused_def example_controller_def example_translate)
  have b1: "SplitMetaNamespaceKey ?c2 (Object ?del) = Inr (''helm'', ''foo'')"
    by (simp add: example_controller_empty_def example_controller_def)
  have b2: "(Type ?del \<noteq> EventDelete \<and> apisixTlsLister ?c2 ''helm'' ''foo'' = Inr example_tls)
         \<or> (Type ?del = EventDelete \<and> Tombstone ?del = Some example_tls
              \<and> (\<exists>err. apisixTlsLister ?c2 ''helm'' ''foo'' = Inl err \<and> IsNotFound err))"
    by (simp add: example_controller_empty_def example_controller_def)
  have b3: "TranslateSSL ?c2 example_tls = Inr example_ssl"
    by (simp add: example_controller_empty_def example_controller_def example_translate)
  have k: "tls_SecretNamespace example_tls @ ''_'' @ tls_SecretName example_tls = ''helm_test-atls''"
          "ID example_ssl = ''helm_foo''"
    by (simp_all add: example_tls_def example_ssl_def)
  have g: "syncSSL example_controller_refused example_ssl EventAdd = Some (OtherError ''gateway unreachable'')"
          "syncSSL ?c2 example_ssl EventDelete = Some (OtherError ''gateway unreachable'')"
    by (simp_all add: example_controller_refused_def)
  from index_updated_before_gateway_sync [OF a1 a2 a3, of example_state]
       index_updated_before_gateway_sync [OF b1 b2 b3,
         of "\<lparr>index = [''helm_test-atls'' \<mapsto> [''helm_foo'' \<mapsto> example_ssl]], trace = []\<rparr>"]
  show ?thesis
    unfolding k Let_def by (auto simp: g split: prod.splits)
qed

text \<open>
  Claim C5. When the secret referenced by a TLS binding cannot be fetched, the
  translation returns an error with field \<open>secret\<close> and no gateway object; a reconcile
  that translates this binding returns that error, leaves the index as it was, and makes
  no gateway call: it records the translation call and a warning event only.
\<close>

theorem failed_secret_lookup_fails_translation:
  assumes "secretLister (tls_SecretNamespace tls) (tls_SecretName tls) = Inl err"
  shows "TranslateSSL_spec secretLister tls =
           Inl (TranslateError \<lparr>field = ''secret'', reason = Error err\<rparr>)
       \<and> (\<forall>(c :: Controller) (ev :: Event) st namespace name.
            TranslateSSL c = TranslateSSL_spec secretLister
            \<and> SplitMetaNamespaceKey c (Object ev) = Inr (namespace, name)
            \<and> ((Type ev \<noteq> EventDelete \<and> apisixTlsLister c namespace name = Inr tls)
               \<or> (Type ev = EventDelete \<and> Tombstone ev = Some tls
                  \<and> (\<exists>e. apisixTlsLister c namespace name = Inl e \<and> IsNotFound e)))
            \<longrightarrow> sync c ev st =
                  (Return (Some (TranslateError \<lparr>field = ''secret'', reason = Error err\<rparr>)),
                   \<lparr>index = index st,
                    trace = trace st @
                      [CallTranslateSSL tls,
                       RecorderEvent tls EventTypeWarning resourceSyncAborted
                         [tlsController,
                          Error (TranslateError \<lparr>field = ''secret'', reason = Error err\<rparr>)]]\<rparr>))"
proof -
  have t: "TranslateSSL_spec secretLister tls =
           Inl (TranslateError \<lparr>field = ''secret'', reason = Error err\<rparr>)"
    using assms by (simp add: TranslateSSL_spec_def)
  show ?thesis
  proof (intro conjI allI impI)
    show "TranslateSSL_spec secretLister tls =
           Inl (TranslateError \<lparr>field = ''secret'', reason = Error err\<rparr>)"
      by (rule t)
  next
    fix c :: Controller and ev :: Event and st namespace name
    assume a: "TranslateSSL c = TranslateSSL_spec secretLister
            \<and> SplitMetaNamespaceKey c (Object ev) = Inr (namespace, name)
            \<and> ((Type ev \<noteq> EventDelete \<and> apisixTlsLister c namespace name = Inr tls)
               \<or> (Type ev = EventDelete \<and> Tombstone ev = Some tls
                  \<and> (\<exists>e. apisixTlsLister c namespace name = Inl e \<and> IsNotFound e)))"
    then have s: "sync c ev st = translateAndSync c ev tls st"
      by (intro sync_reaches_translateAndSync) blast+
    from a t have "TranslateSSL c tls = Inl (TranslateError \<lparr>field = ''secret'', reason = Error err\<rparr>)"
      by simp
    from translateAndSync_failed [OF this] s
    show "sync c ev st =
                  (Return (Some (TranslateError \<lparr>field = ''secret'', reason = Error err\<rparr>)),
                   \<lparr>index = index st,
                    trace = trace st @
                      [CallTranslateSSL tls,
                       RecorderEvent tls EventTypeWarning resourceSyncAborted
                         [tlsController,
                          Error (TranslateError \<lparr>field = ''secret'', reason = Error err\<rparr>)]]\<rparr>)"
      by simp
  qed
qed

theorem failed_secret_lookup_witness:
  "TranslateSSL_spec (\<lambda>namespace name. Inl (StatusNotFound ''NOT FOUND'')) example_tls =
     Inl (TranslateError \<lparr>field = ''secret'', reason = ''NOT FOUND''\<rparr>)
   \<and> sync example_controller_no_secret \<lparr>Type = EventAdd, Object = ''helm/foo'', Tombstone = None\<rparr>
       example_state =
       (Return (Some (TranslateError \<lparr>field = ''secret'', reason = ''NOT FOUND''\<rparr>)),
        \<lparr>index = Map.empty,
         trace = [CallTranslateSSL example_tls,
                  RecorderEvent example_tls EventTypeWarning resourceSyncAborted
                    [''TlsController'', ''secret: NOT FOUND'']]\<rparr>)"
proof -
  let ?lister = "\<lambda>(namespace :: string) (name :: string). Inl (StatusNotFound ''NOT FOUND'') :: error + Secret"
  let ?ev = "\<lparr>Type = EventAdd, Object = ''helm/foo'', Tombstone = None\<rparr>"
  have h: "?lister (tls_SecretNamespace example_tls) (tls_SecretName example_tls) =
             Inl (StatusNotFound ''NOT FOUND'')"
    by simp
  have p: "TranslateSSL example_controller_no_secret = TranslateSSL_spec ?lister
            \<and> SplitMetaNamespaceKey example_controller_no_secret (Object ?ev) = Inr (''helm'', ''foo'')
            \<and> ((Type ?ev \<noteq> EventDelete \<and> apisixTlsLister example_controller_no_secret ''helm'' ''foo'' = Inr example_tls)
               \<or> (Type ?ev = EventDelete \<and> Tombstone ?ev = Some example_tls
                  \<and> (\<exists>e. apisixTlsLister example_controller_no_secret ''helm'' ''foo'' = Inl e \<and> IsNotFound e)))"
    by (simp add: example_controller_no_secret_def example_controller_def)
  from failed_secret_lookup_fails_translation [OF h] p
  show ?thesis
    by (simp add: example_state_def tlsController_def)
qed



section \<open>Stale and superseded events\<close>





text \<open>
  Claim C2. For an event that is not a delete and whose cache lookup fails: when the
  error is not-found the reconcile returns success with no call made and no event
  recorded, and the worker forgets the item; any other lookup error is returned by the
  reconcile, and the worker puts the item back under the rate limiter. This holds for the
  TLS controller and for the upstream controller.
\<close>

theorem lookup_error_handling:
  "(SplitMetaNamespaceKey c (Object ev) = Inr (namespace, name)
      \<and> Type ev \<noteq> EventDelete \<and> apisixTlsLister c namespace name = Inl err
    \<longrightarrow> (IsNotFound err \<longrightarrow>
           sync c ev st = (Return None, st)
         \<and> runWorker c ev st = (Return (), st\<lparr>trace := trace st @ [QueueDone ev, QueueForget ev]\<rparr>))
      \<and> (\<not> IsNotFound err \<longrightarrow>
           sync c ev st = (Return (Some err), st)
         \<and> runWorker c ev st =
             (Return (), st\<lparr>trace := trace st @ [QueueDone ev, QueueAddRateLimited ev]\<rparr>)))
   \<and> (uc_SplitMetaNamespaceKey uc (Key sqo) = Inr (namespace', name')
      \<and> Ope sqo \<noteq> DELETE uc \<and> apisixUpstreamList uc namespace' name' = Inl err'
    \<longrightarrow> (IsNotFound err' \<longrightarrow>
           syncHandler uc sqo tr = (Return None, tr)
         \<and> processNextWorkItem uc sqo tr =
             (Return None, tr @ [WorkqueueForget sqo, WorkqueueDone sqo]))
      \<and> (\<not> IsNotFound err' \<longrightarrow>
           syncHandler uc sqo tr = (Return (Some err'), tr)
         \<and> (\<exists>wrapped. processNextWorkItem uc sqo tr =
               (Return (Some wrapped), tr @ [WorkqueueAddRateLimited sqo, WorkqueueDone sqo]))))"
  by (simp add: sync_def runWorker_def handleSyncErr_def emit_def syncHandler_def
        processNextWorkItem_def)

theorem lookup_error_handling_witness:
  "runWorker example_controller_empty \<lparr>Type = EventAdd, Object = ''helm/foo'', Tombstone = None\<rparr>
       example_state =
       (Return (), \<lparr>index = Map.empty,
                    trace = [QueueDone \<lparr>Type = EventAdd, Object = ''helm/foo'', Tombstone = None\<rparr>,
                             QueueForget \<lparr>Type = EventAdd, Object = ''helm/foo'', Tombstone = None\<rparr>]\<rparr>)
   \<and> runWorker example_controller_broken \<lparr>Type = EventAdd, Object = ''helm/foo'', Tombstone = None\<rparr>
       example_state =
       (Return (), \<lparr>index = Map.empty,
                    trace = [QueueDone \<lparr>Type = EventAdd, Object = ''helm/foo'', Tombstone = None\<rparr>,
                             QueueAddRateLimited \<lparr>Type = EventAdd, Object = ''helm/foo'', Tombstone = None\<rparr>]\<rparr>)
   \<and> syncHandler example_upstream_controller_empty
       \<lparr>Key = ''ns/foo'', OldObj = None, Ope = ''ADD''\<rparr> [] = (Return None, [])
   \<and> syncHandler example_upstream_controller_broken
       \<lparr>Key = ''ns/foo'', OldObj = None, Ope = ''ADD''\<rparr> [] =
       (Return (Some (OtherError ''cache unavailable'')), [])"
  using lookup_error_handling
          [of example_controller_empty
              "\<lparr>Type = EventAdd, Object = ''helm/foo'', Tombstone = None\<rparr>"
              "''helm''" "''foo''" "StatusNotFound ''apisixtls not found''" example_state
              example_upstream_controller_empty
              "\<lparr>Key = ''ns/foo'', OldObj = None, Ope = ''ADD''\<rparr>"
              "''ns''" "''foo''" "StatusNotFound ''apisixupstream not found''" "[]"]
        lookup_error_handling
          [of example_controller_broken
              "\<lparr>Type = EventAdd, Object = ''helm/foo'', Tombstone = None\<rparr>"
              "''helm''" "''foo''" "OtherError ''cache unavailable''" example_state
              example_upstream_controller_broken
              "\<lparr>Key = ''ns/foo'', OldObj = None, Ope = ''ADD''\<rparr>"
              "''ns''" "''foo''" "OtherError ''cache unavailable''" "[]"]
  by (simp add: example_controller_empty_def example_controller_broken_def example_controller_def
        example_upstream_controller_empty_def example_upstream_controller_broken_def
        example_upstream_controller_def example_state_def)





end
